theory Spec2Isabelle
  imports Main
begin

section \<open>GearGuard: the maintenance-request workflow\<close>

text \<open>
  A shallow embedding of the request controller, the equipment auto-fill endpoint, the
  Mongoose schema of a maintenance request, and the two client handlers that guard the
  server calls (the Kanban board's drag handler and the request form's validation).

  Conventions. An ObjectId is a natural number. A collection is the list of its
  documents; \<open>findById\<close> returns the first document with the id. Every handler
  takes the store and returns the response together with the store it leaves behind.
  A response that is not a success is a \<open>Failure\<close> with the HTTP status and the
  message of the source. Every awaited store operation may reject: the set of
  operations that reject is a parameter (\<open>faults\<close>), and a rejection is caught by
  the handler's \<open>catch\<close> block, which answers 500.
\<close>

subsection \<open>Data model\<close>

type_synonym oid = nat

datatype role = Admin | Manager | Technician | User

text \<open>The authenticated actor (\<open>req.user\<close>): the fields the controllers read.\<close>

record user =
  u_id :: oid
  role :: role
  team :: "oid option"

text \<open>models/Equipment.js, the fields the request workflow reads and writes.\<close>

record equipment =
  e_id :: oid
  equipmentName :: string
  serialNumber :: string
  category :: string
  e_maintenanceTeam :: oid
  defaultTechnician :: oid
  isActive :: bool

text \<open>
  models/MaintenanceRequest.js. The enumerated fields are strings, as in the schema:
  the enum is checked by validation when a document is saved, not by the type.
\<close>

record request =
  r_id :: oid
  subject :: string
  equipment :: oid
  equipmentCategory :: string
  maintenanceTeam :: "oid option"
  requestType :: string
  stage :: string
  priority :: string
  scheduledDate :: "int option"
  assignedTechnician :: "oid option"
  durationHours :: int
  description :: string
  resolutionNotes :: string
  createdBy :: oid

record db =
  users :: "user list"
  equipments :: "equipment list"
  requests :: "request list"

datatype failure = Failure (status: nat) (message: string)

type_synonym 'a result = "failure + 'a"

text \<open>The awaited store operations of the handlers; each may reject.\<close>

datatype dbop =
    EquipmentFindById
  | EquipmentFindByIdAndUpdate
  | RequestFindById
  | RequestFind
  | RequestCreate
  | RequestSave
  | RequestFindByIdAndUpdate
  | Populate

type_synonym faults = "dbop set"

definition findById :: "('a \<Rightarrow> oid) \<Rightarrow> oid \<Rightarrow> 'a list \<Rightarrow> 'a option" where
  "findById key i xs = find (\<lambda>x. key x = i) xs"

text \<open>Replace the first document with the id by its image under \<open>f\<close>.\<close>

fun updateById :: "('a \<Rightarrow> oid) \<Rightarrow> oid \<Rightarrow> ('a \<Rightarrow> 'a) \<Rightarrow> 'a list \<Rightarrow> 'a list" where
  "updateById key i f [] = []"
| "updateById key i f (x # xs) =
     (if key x = i then f x # xs else x # updateById key i f xs)"

subsection \<open>Schema: enums, setters and validation\<close>

definition stageValues :: "string list" where
  "stageValues = [''New'', ''In Progress'', ''Repaired'', ''Scrap'']"

definition requestTypeValues :: "string list" where
  "requestTypeValues = [''Corrective'', ''Preventive'']"

definition priorityValues :: "string list" where
  "priorityValues = [''Low'', ''Medium'', ''High'', ''Urgent'']"

text \<open>
  \<open>trim: true\<close> of the schema, and \<open>String.prototype.trim\<close> of the form: white
  space is removed at both ends. The ASCII white space characters are modelled; the
  white space of JavaScript beyond ASCII is not.
\<close>

definition isWhitespace :: "char \<Rightarrow> bool" where
  "isWhitespace c =
     (c \<in> set [CHR '' '', CHR 0x09, CHR 0x0A, CHR 0x0B, CHR 0x0C, CHR 0x0D])"

definition trim :: "string \<Rightarrow> string" where
  "trim s = rev (dropWhile isWhitespace (rev (dropWhile isWhitespace s)))"

text \<open>
  The validators of the schema, run by \<open>create\<close> and \<open>save\<close>: \<open>subject\<close> and
  \<open>requestType\<close> are required (a required string is not empty), the three enums,
  and \<open>durationHours\<close> at least 0. \<open>equipment\<close> and \<open>createdBy\<close> are required
  too; the record always holds them. \<open>scheduledDate\<close> has no validator.
\<close>

definition validRequest :: "request \<Rightarrow> bool" where
  "validRequest r =
     (subject r \<noteq> [] \<and>
      requestType r \<in> set requestTypeValues \<and>
      stage r \<in> set stageValues \<and>
      priority r \<in> set priorityValues \<and>
      0 \<le> durationHours r)"

subsection \<open>The Kanban board: transition validator\<close>

text \<open>
  The table of the standard workflow, an object literal in the source. A request's
  stage on the board comes from the server, so it is one of \<open>stageValues\<close>. The
  lookup of any other key is modelled as \<open>undefined\<close>; the source differs on the
  names an object literal inherits (such as \<open>constructor\<close>), where the call of
  \<open>includes\<close> throws. The properties of the drag handler below are stated for the
  stages of the schema.
\<close>

definition validTransitions :: "(string \<times> string list) list" where
  "validTransitions =
     [(''New'', [''In Progress'']),
      (''In Progress'', [''Repaired'']),
      (''Repaired'', [])]"

definition isValidTransition :: "string \<Rightarrow> string \<Rightarrow> bool" where
  "isValidTransition fromStage toStage =
     (if fromStage = ''Scrap'' then False
      else if toStage = ''Scrap'' then True
      else (case map_of validTransitions fromStage of
              None \<Rightarrow> False
            | Some ts \<Rightarrow> toStage \<in> set ts))"

subsection \<open>Request bodies\<close>

text \<open>
  \<open>req.body\<close> of POST and PUT /api/requests: a JSON object, each key present or
  not (\<open>None\<close>: the key is absent). The nullable fields may be present with the
  value null (\<open>Some None\<close>). Values of the wrong JSON type, whose cast fails, are
  not modelled.
\<close>

record body =
  b_subject :: "string option"
  b_equipment :: "oid option"
  b_equipmentCategory :: "string option"
  b_maintenanceTeam :: "oid option option"
  b_requestType :: "string option"
  b_stage :: "string option"
  b_priority :: "string option"
  b_scheduledDate :: "int option option"
  b_assignedTechnician :: "oid option option"
  b_durationHours :: "int option"
  b_description :: "string option"
  b_resolutionNotes :: "string option"
  b_createdBy :: "oid option"

definition emptyBody :: body where
  "emptyBody =
     \<lparr>b_subject = None, b_equipment = None, b_equipmentCategory = None,
      b_maintenanceTeam = None, b_requestType = None, b_stage = None,
      b_priority = None, b_scheduledDate = None, b_assignedTechnician = None,
      b_durationHours = None, b_description = None, b_resolutionNotes = None,
      b_createdBy = None\<rparr>"

text \<open>The id of a new document: the store generates one no document has.\<close>

definition freshId :: "request list \<Rightarrow> oid" where
  "freshId rs = Suc (fold max (map r_id rs) 0)"

subsection \<open>requestController.createRequest\<close>

text \<open>
  The document handed to \<open>MaintenanceRequest.create\<close>: the body's fields, then the
  fields the handler sets, which win over the body's. A field that is absent takes the
  schema's default; the two required strings have none, and the empty string stands
  for their absence (validation refuses both alike). String fields with
  \<open>trim: true\<close> pass through \<open>trim\<close>.
\<close>

definition newRequest :: "oid \<Rightarrow> user \<Rightarrow> body \<Rightarrow> equipment \<Rightarrow> request" where
  "newRequest i u b e =
     \<lparr>r_id = i,
      subject = (case b_subject b of None \<Rightarrow> [] | Some s \<Rightarrow> trim s),
      equipment = e_id e,
      equipmentCategory = trim (category e),
      maintenanceTeam = Some (e_maintenanceTeam e),
      requestType = (case b_requestType b of None \<Rightarrow> [] | Some s \<Rightarrow> s),
      stage = (case b_stage b of None \<Rightarrow> ''New'' | Some s \<Rightarrow> s),
      priority = (case b_priority b of None \<Rightarrow> ''Medium'' | Some s \<Rightarrow> s),
      scheduledDate = (case b_scheduledDate b of None \<Rightarrow> None | Some x \<Rightarrow> x),
      assignedTechnician =
        (case b_assignedTechnician b of
           Some (Some t) \<Rightarrow> Some t
         | _ \<Rightarrow> Some (defaultTechnician e)),
      durationHours = (case b_durationHours b of None \<Rightarrow> 0 | Some h \<Rightarrow> h),
      description = (case b_description b of None \<Rightarrow> [] | Some s \<Rightarrow> trim s),
      resolutionNotes = (case b_resolutionNotes b of None \<Rightarrow> [] | Some s \<Rightarrow> trim s),
      createdBy = u_id u\<rparr>"

definition createRequest :: "faults \<Rightarrow> user \<Rightarrow> body \<Rightarrow> db \<Rightarrow> request result \<times> db" where
  "createRequest flt u b d =
     (if EquipmentFindById \<in> flt then (Inl (Failure 500 ''Error creating request.''), d)
      else
        case (case b_equipment b of
                None \<Rightarrow> None
              | Some i \<Rightarrow> findById e_id i (equipments d)) of
          None \<Rightarrow> (Inl (Failure 404 ''Equipment not found.''), d)
        | Some e \<Rightarrow>
            if \<not> isActive e then
              (Inl (Failure 400 ''Cannot create request for inactive/scrapped equipment.''), d)
            else
              let r = newRequest (freshId (requests d)) u b e in
              if RequestCreate \<in> flt \<or> \<not> validRequest r then
                (Inl (Failure 500 ''Error creating request.''), d)
              else
                let d' = d\<lparr>requests := requests d @ [r]\<rparr> in
                if Populate \<in> flt then (Inl (Failure 500 ''Error creating request.''), d')
                else (Inr r, d'))"

subsection \<open>equipmentController.getEquipmentAutoFill\<close>

record autofill =
  af_equipmentCategory :: string
  af_maintenanceTeam :: oid
  af_defaultTechnician :: oid

definition getEquipmentAutoFill :: "faults \<Rightarrow> oid \<Rightarrow> db \<Rightarrow> autofill result" where
  "getEquipmentAutoFill flt i d =
     (if EquipmentFindById \<in> flt then Inl (Failure 500 ''Error fetching auto-fill data.'')
      else
        case findById e_id i (equipments d) of
          None \<Rightarrow> Inl (Failure 404 ''Equipment not found.'')
        | Some e \<Rightarrow>
            if \<not> isActive e then
              Inl (Failure 400
                ''This equipment is marked as scrapped/inactive and cannot have new requests.'')
            else
              Inr \<lparr>af_equipmentCategory = category e,
                   af_maintenanceTeam = e_maintenanceTeam e,
                   af_defaultTechnician = defaultTechnician e\<rparr>)"

subsection \<open>requestController.getAllRequests and getRequestById\<close>

text \<open>The query string: a parameter counts when it is present and not empty.\<close>

record query =
  q_stage :: "string option"
  q_priority :: "string option"
  q_requestType :: "string option"
  q_equipmentId :: "oid option"
  q_technicianId :: "oid option"

definition noQuery :: query where
  "noQuery =
     \<lparr>q_stage = None, q_priority = None, q_requestType = None,
      q_equipmentId = None, q_technicianId = None\<rparr>"

definition roleFilter :: "user \<Rightarrow> request \<Rightarrow> bool" where
  "roleFilter u r =
     (if role u = User then createdBy r = u_id u
      else if role u = Technician then
        assignedTechnician r = Some (u_id u) \<or> maintenanceTeam r = team u
      else True)"

definition matchString :: "string option \<Rightarrow> string \<Rightarrow> bool" where
  "matchString p v = (case p of None \<Rightarrow> True | Some s \<Rightarrow> if s = [] then True else v = s)"

definition queryFilter :: "query \<Rightarrow> request \<Rightarrow> bool" where
  "queryFilter q r =
     (matchString (q_stage q) (stage r) \<and>
      matchString (q_priority q) (priority r) \<and>
      matchString (q_requestType q) (requestType r) \<and>
      (case q_equipmentId q of None \<Rightarrow> True | Some e \<Rightarrow> equipment r = e) \<and>
      (case q_technicianId q of None \<Rightarrow> True | Some t \<Rightarrow> assignedTechnician r = Some t))"

text \<open>
  The documents that match the filter, in the order of the collection. The source sorts
  them by creation time, which the model does not record: the properties below are about
  which documents are returned.
\<close>

definition getAllRequests :: "faults \<Rightarrow> user \<Rightarrow> query \<Rightarrow> db \<Rightarrow> request list result" where
  "getAllRequests flt u q d =
     (if RequestFind \<in> flt then Inl (Failure 500 ''Error fetching requests.'')
      else Inr (filter (\<lambda>r. roleFilter u r \<and> queryFilter q r) (requests d)))"

text \<open>
  The access check reads \<open>request.createdBy._id\<close> of the populated document. When
  the creator is no longer in the users collection, \<open>populate\<close> leaves null there and
  the read throws, which the catch block answers with 500.
\<close>

definition getRequestById :: "faults \<Rightarrow> user \<Rightarrow> oid \<Rightarrow> db \<Rightarrow> request result" where
  "getRequestById flt u i d =
     (if RequestFindById \<in> flt then Inl (Failure 500 ''Error fetching request.'')
      else
        case findById r_id i (requests d) of
          None \<Rightarrow> Inl (Failure 404 ''Request not found.'')
        | Some r \<Rightarrow>
            if role u = User then
              (case findById u_id (createdBy r) (users d) of
                 None \<Rightarrow> Inl (Failure 500 ''Error fetching request.'')
               | Some c \<Rightarrow>
                   if u_id c \<noteq> u_id u then Inl (Failure 403 ''Access denied.'')
                   else Inr r)
            else Inr r)"

subsection \<open>requestController.updateRequest\<close>

definition canUpdate :: "user \<Rightarrow> request \<Rightarrow> bool" where
  "canUpdate u r =
     (role u \<in> set [Admin, Manager] \<or> assignedTechnician r = Some (u_id u))"

text \<open>
  \<open>Object.assign(request, req.body)\<close>: every key of the body is written to the
  document, through the setter of its schema path.
\<close>

definition assign :: "request \<Rightarrow> body \<Rightarrow> request" where
  "assign r b =
     r\<lparr>subject := (case b_subject b of None \<Rightarrow> subject r | Some s \<Rightarrow> trim s),
       equipment := (case b_equipment b of None \<Rightarrow> equipment r | Some e \<Rightarrow> e),
       equipmentCategory :=
         (case b_equipmentCategory b of None \<Rightarrow> equipmentCategory r | Some s \<Rightarrow> trim s),
       maintenanceTeam :=
         (case b_maintenanceTeam b of None \<Rightarrow> maintenanceTeam r | Some t \<Rightarrow> t),
       requestType := (case b_requestType b of None \<Rightarrow> requestType r | Some s \<Rightarrow> s),
       stage := (case b_stage b of None \<Rightarrow> stage r | Some s \<Rightarrow> s),
       priority := (case b_priority b of None \<Rightarrow> priority r | Some s \<Rightarrow> s),
       scheduledDate :=
         (case b_scheduledDate b of None \<Rightarrow> scheduledDate r | Some x \<Rightarrow> x),
       assignedTechnician :=
         (case b_assignedTechnician b of None \<Rightarrow> assignedTechnician r | Some t \<Rightarrow> t),
       durationHours := (case b_durationHours b of None \<Rightarrow> durationHours r | Some h \<Rightarrow> h),
       description := (case b_description b of None \<Rightarrow> description r | Some s \<Rightarrow> trim s),
       resolutionNotes :=
         (case b_resolutionNotes b of None \<Rightarrow> resolutionNotes r | Some s \<Rightarrow> trim s),
       createdBy := (case b_createdBy b of None \<Rightarrow> createdBy r | Some c \<Rightarrow> c)\<rparr>"

definition updateRequest ::
  "faults \<Rightarrow> user \<Rightarrow> oid \<Rightarrow> body \<Rightarrow> db \<Rightarrow> request result \<times> db" where
  "updateRequest flt u i b d =
     (if RequestFindById \<in> flt then (Inl (Failure 500 ''Error updating request.''), d)
      else
        case findById r_id i (requests d) of
          None \<Rightarrow> (Inl (Failure 404 ''Request not found.''), d)
        | Some r \<Rightarrow>
            if \<not> canUpdate u r then
              (Inl (Failure 403 ''You do not have permission to update this request.''), d)
            else
              let r' = assign r b in
              if RequestSave \<in> flt \<or> \<not> validRequest r' then
                (Inl (Failure 500 ''Error updating request.''), d)
              else
                let d' = d\<lparr>requests := updateById r_id i (\<lambda>_. r') (requests d)\<rparr> in
                if Populate \<in> flt then (Inl (Failure 500 ''Error updating request.''), d')
                else (Inr r', d'))"

text \<open>
  api/request.api.js, \<open>updateResolution\<close>: the detail page sends the duration and
  the notes, each or none, to the same PUT endpoint.
\<close>

definition updateResolution ::
  "faults \<Rightarrow> user \<Rightarrow> oid \<Rightarrow> int option \<Rightarrow> string option \<Rightarrow> db \<Rightarrow> request result \<times> db" where
  "updateResolution flt u i hours notes d =
     updateRequest flt u i
       (emptyBody\<lparr>b_durationHours := hours, b_resolutionNotes := notes\<rparr>) d"

subsection \<open>requestController.updateRequestStage\<close>

text \<open>
  \<open>stage\<close> of the body: absent, or a string; the empty string is falsy. For Scrap the
  equipment is written first, then the request is saved: when the save rejects, the
  equipment stays deactivated.
\<close>

definition deactivate :: "oid \<Rightarrow> equipment list \<Rightarrow> equipment list" where
  "deactivate i es = updateById e_id i (\<lambda>e. e\<lparr>isActive := False\<rparr>) es"

definition updateRequestStage ::
  "faults \<Rightarrow> user \<Rightarrow> oid \<Rightarrow> string option \<Rightarrow> db \<Rightarrow> request result \<times> db" where
  "updateRequestStage flt u i stg d =
     (case stg of
        None \<Rightarrow> (Inl (Failure 400 ''Stage is required.''), d)
      | Some s \<Rightarrow>
          if s = [] then (Inl (Failure 400 ''Stage is required.''), d)
          else if RequestFindById \<in> flt then
            (Inl (Failure 500 ''Error updating request stage.''), d)
          else
            (case findById r_id i (requests d) of
              None \<Rightarrow> (Inl (Failure 404 ''Request not found.''), d)
            | Some r \<Rightarrow>
                if \<not> canUpdate u r then
                  (Inl (Failure 403 ''You do not have permission to update this request.''), d)
                else if s = ''Scrap'' \<and> EquipmentFindByIdAndUpdate \<in> flt then
                  (Inl (Failure 500 ''Error updating request stage.''), d)
                else
                  let d1 = (if s = ''Scrap''
                            then d\<lparr>equipments := deactivate (equipment r) (equipments d)\<rparr>
                            else d);
                      r' = r\<lparr>stage := s\<rparr>
                  in
                    if RequestSave \<in> flt \<or> \<not> validRequest r' then
                      (Inl (Failure 500 ''Error updating request stage.''), d1)
                    else
                      let d2 = d1\<lparr>requests := updateById r_id i (\<lambda>_. r') (requests d1)\<rparr> in
                      if Populate \<in> flt then
                        (Inl (Failure 500 ''Error updating request stage.''), d2)
                      else (Inr r', d2)))"

subsection \<open>PATCH /api/requests/:id/assign\<close>

fun roleName :: "role \<Rightarrow> string" where
  "roleName Admin = ''Admin''"
| "roleName Manager = ''Manager''"
| "roleName Technician = ''Technician''"
| "roleName User = ''User''"

fun join :: "string \<Rightarrow> string list \<Rightarrow> string" where
  "join sep [] = []"
| "join sep [x] = x"
| "join sep (x # y # ys) = x @ sep @ join sep (y # ys)"

text \<open>middleware/roleAuth.js: \<open>None\<close> is \<open>next()\<close>.\<close>

definition roleAuth :: "role list \<Rightarrow> user \<Rightarrow> failure option" where
  "roleAuth roles u =
     (if role u \<notin> set roles then
        Some (Failure 403
          (''Access denied. Required role: '' @ join '' or '' (map roleName roles) @
           ''. Your role: '' @ roleName (role u)))
      else None)"

definition assignTechnician ::
  "faults \<Rightarrow> oid \<Rightarrow> oid option \<Rightarrow> db \<Rightarrow> request result \<times> db" where
  "assignTechnician flt i technicianId d =
     (case technicianId of
        None \<Rightarrow> (Inl (Failure 400 ''Technician ID is required.''), d)
      | Some t \<Rightarrow>
          if RequestFindByIdAndUpdate \<in> flt then
            (Inl (Failure 500 ''Error assigning technician.''), d)
          else
            (case findById r_id i (requests d) of
              None \<Rightarrow> (Inl (Failure 404 ''Request not found.''), d)
            | Some r \<Rightarrow>
                (Inr (r\<lparr>assignedTechnician := Some t\<rparr>),
                 d\<lparr>requests :=
                     updateById r_id i (\<lambda>x. x\<lparr>assignedTechnician := Some t\<rparr>) (requests d)\<rparr>)))"

text \<open>The route: \<open>permissions.adminAndManager\<close>, then the controller.\<close>

definition assignTechnicianRoute ::
  "faults \<Rightarrow> user \<Rightarrow> oid \<Rightarrow> oid option \<Rightarrow> db \<Rightarrow> request result \<times> db" where
  "assignTechnicianRoute flt u i technicianId d =
     (case roleAuth [Admin, Manager] u of
        Some f \<Rightarrow> (Inl f, d)
      | None \<Rightarrow> assignTechnician flt i technicianId d)"

subsection \<open>The Kanban board: dropping a card\<close>

text \<open>
  The client state of the board: its copy of the requests, the toasts shown, and the
  Scrap confirmation dialog. The audit log and the notifications the board appends to
  are not modelled.
\<close>

record scrap_dialog =
  isOpen :: bool
  requestId :: "oid option"
  fromStage :: string
  dlg_subject :: string

record kanban =
  k_requests :: "request list"
  toasts :: "(string \<times> string) list"
  scrapDialog :: scrap_dialog

definition showToast :: "string \<Rightarrow> string \<Rightarrow> kanban \<Rightarrow> kanban" where
  "showToast msg kind k = k\<lparr>toasts := toasts k @ [(msg, kind)]\<rparr>"

definition setStage :: "oid \<Rightarrow> string \<Rightarrow> request list \<Rightarrow> request list" where
  "setStage i s rs = map (\<lambda>r. if r_id r = i then r\<lparr>stage := s\<rparr> else r) rs"

text \<open>
  The board's \<open>updateRequestStage\<close>: the optimistic update, the PATCH, and the
  rollback when the server answers with an error (the toast shows the server's message,
  or a fixed text when there is none).
\<close>

definition kanbanUpdateRequestStage ::
  "faults \<Rightarrow> user \<Rightarrow> oid \<Rightarrow> string \<Rightarrow> string \<Rightarrow> kanban \<times> db \<Rightarrow> kanban \<times> db" where
  "kanbanUpdateRequestStage flt u i oldStage newStage kd =
     (let k = fst kd; d = snd kd;
          k1 = k\<lparr>k_requests := setStage i newStage (k_requests k)\<rparr>
      in
        case updateRequestStage flt u i (Some newStage) d of
          (Inr r, d') \<Rightarrow> (showToast (''Request moved to '' @ newStage) ''success'' k1, d')
        | (Inl f, d') \<Rightarrow>
            ((showToast (if message f = [] then ''Failed to update stage'' else message f)
                ''error'' k1)
               \<lparr>k_requests := setStage i oldStage (k_requests k1)\<rparr>, d'))"

text \<open>
  \<open>handleDragEnd\<close>: \<open>activeId\<close> is the id of the dragged card, \<open>over\<close> the id of
  the drop target when there is one (a column's id is its stage). The handler also
  clears the id of the card being dragged, which only the drag overlay reads. A drop on
  Scrap opens the confirmation dialog; the server is called when the dialog is confirmed.
\<close>

definition handleDragEnd ::
  "faults \<Rightarrow> user \<Rightarrow> oid \<Rightarrow> string option \<Rightarrow> kanban \<times> db \<Rightarrow> kanban \<times> db" where
  "handleDragEnd flt u activeId over kd =
     (let k = fst kd; d = snd kd in
        case over of
          None \<Rightarrow> (k, d)
        | Some newStage \<Rightarrow>
            (case find (\<lambda>r. r_id r = activeId) (k_requests k) of
               None \<Rightarrow> (k, d)
             | Some r \<Rightarrow>
                 let oldStage = stage r in
                 if oldStage = newStage then (k, d)
                 else if \<not> isValidTransition oldStage newStage then
                   (showToast (''Cannot move from '' @ oldStage @ '' to '' @ newStage)
                      ''error'' k, d)
                 else if newStage = ''Scrap'' then
                   (k\<lparr>scrapDialog :=
                        \<lparr>isOpen = True, requestId = Some activeId,
                         fromStage = oldStage, dlg_subject = subject r\<rparr>\<rparr>, d)
                 else kanbanUpdateRequestStage flt u activeId oldStage newStage (k, d)))"

subsection \<open>The request form\<close>

record formData =
  f_subject :: string
  f_equipment :: string
  f_requestType :: string
  f_priority :: string
  f_scheduledDate :: string
  f_description :: string
  f_equipmentCategory :: string
  f_maintenanceTeam :: string
  f_assignedTechnician :: string

text \<open>\<open>validateForm\<close>: the errors object, as the list of its entries in order.\<close>

definition validateForm :: "formData \<Rightarrow> (string \<times> string) list" where
  "validateForm f =
     (if trim (f_subject f) = [] then [(''subject'', ''Subject is required'')] else []) @
     (if f_equipment f = [] then [(''equipment'', ''Equipment is required'')] else []) @
     (if f_requestType f = [] then [(''requestType'', ''Request type is required'')] else []) @
     (if f_priority f = [] then [(''priority'', ''Priority is required'')] else []) @
     (if f_requestType f = ''Preventive'' \<and> f_scheduledDate f = [] then
        [(''scheduledDate'', ''Scheduled date is required for preventive maintenance'')]
      else []) @
     (if trim (f_description f) = [] then [(''description'', ''Description is required'')]
      else [])"

record submitData =
  s_subject :: string
  s_equipment :: string
  s_requestType :: string
  s_priority :: string
  s_description :: string
  s_equipmentCategory :: string
  s_maintenanceTeam :: string
  s_assignedTechnician :: "string option"
  s_scheduledDate :: "string option"

definition orUndefined :: "string \<Rightarrow> string option" where
  "orUndefined s = (if s = [] then None else Some s)"

definition toSubmitData :: "formData \<Rightarrow> submitData" where
  "toSubmitData f =
     \<lparr>s_subject = trim (f_subject f),
      s_equipment = f_equipment f,
      s_requestType = f_requestType f,
      s_priority = f_priority f,
      s_description = trim (f_description f),
      s_equipmentCategory = f_equipmentCategory f,
      s_maintenanceTeam = f_maintenanceTeam f,
      s_assignedTechnician = orUndefined (f_assignedTechnician f),
      s_scheduledDate = orUndefined (f_scheduledDate f)\<rparr>"

text \<open>
  \<open>handleSubmit\<close>, up to the call it makes: the form is rejected with its errors and
  a toast and nothing is sent, or the data go to PUT /requests/:id (edit mode, the
  route has an id) or to POST /requests.
\<close>

datatype submit_outcome =
    FormRejected "(string \<times> string) list" string
  | PutRequest string submitData
  | PostRequest submitData

definition handleSubmit :: "string option \<Rightarrow> formData \<Rightarrow> submit_outcome" where
  "handleSubmit routeId f =
     (if validateForm f \<noteq> [] then
        FormRejected (validateForm f) ''Please fix the errors in the form''
      else
        case routeId of
          None \<Rightarrow> PostRequest (toSubmitData f)
        | Some i \<Rightarrow> if i = [] then PostRequest (toSubmitData f)
                    else PutRequest i (toSubmitData f))"

subsection \<open>The identity snapshot of a request\<close>


subsection \<open>A sample store\<close>

text \<open>
  One actor of each role (and a second basic user), one active piece of equipment owned
  by team 10 with technician 2 as default, and one request against it, created by user 3
  and assigned to technician 2.
\<close>

definition exAdmin :: user where
  "exAdmin = \<lparr>u_id = 1, role = Admin, team = None\<rparr>"

definition exTechnician :: user where
  "exTechnician = \<lparr>u_id = 2, role = Technician, team = Some 10\<rparr>"

definition exUser :: user where
  "exUser = \<lparr>u_id = 3, role = User, team = None\<rparr>"

definition exOtherUser :: user where
  "exOtherUser = \<lparr>u_id = 4, role = User, team = None\<rparr>"

definition exPump :: equipment where
  "exPump = \<lparr>e_id = 100, equipmentName = ''Pump'', serialNumber = ''SN-1'',
     category = ''Hydraulics'', e_maintenanceTeam = 10, defaultTechnician = 2,
     isActive = True\<rparr>"

definition exTicket :: request where
  "exTicket = \<lparr>r_id = 1000, subject = ''Leak'', equipment = 100,
     equipmentCategory = ''Hydraulics'', maintenanceTeam = Some 10,
     requestType = ''Corrective'', stage = ''New'', priority = ''Medium'',
     scheduledDate = None, assignedTechnician = Some 2, durationHours = 0,
     description = ''Oil leak'', resolutionNotes = [], createdBy = 3\<rparr>"

definition exStore :: db where
  "exStore = \<lparr>users = [exAdmin, exTechnician, exUser, exOtherUser],
     equipments = [exPump], requests = [exTicket]\<rparr>"

text \<open>The sample store with the request at a given stage, and with the pump scrapped.\<close>

definition exStoreAt :: "string \<Rightarrow> db" where
  "exStoreAt s = exStore\<lparr>requests := [exTicket\<lparr>stage := s\<rparr>]\<rparr>"

definition exScrapped :: db where
  "exScrapped = exStore\<lparr>equipments := [exPump\<lparr>isActive := False\<rparr>]\<rparr>"

text \<open>Three requests: the sample one, and two of team 11 created by user 4.\<close>

definition exTickets :: "request list" where
  "exTickets =
     [exTicket,
      exTicket\<lparr>r_id := 1001, maintenanceTeam := Some 11, assignedTechnician := Some 2,
                createdBy := 4\<rparr>,
      exTicket\<lparr>r_id := 1002, maintenanceTeam := Some 11, assignedTechnician := None,
                createdBy := 4\<rparr>]"

text \<open>A board that shows the sample request at a given stage.\<close>

definition exBoard :: "string \<Rightarrow> kanban" where
  "exBoard s = \<lparr>k_requests = [exTicket\<lparr>stage := s\<rparr>], toasts = [],
     scrapDialog = \<lparr>isOpen = False, requestId = None, fromStage = [], dlg_subject = []\<rparr>\<rparr>"

text \<open>A preventive request without a date, as a body and as the form's data.\<close>

definition exPreventive :: body where
  "exPreventive =
     emptyBody\<lparr>b_subject := Some ''Quarterly service'', b_equipment := Some 100,
                b_requestType := Some ''Preventive''\<rparr>"

definition exForm :: formData where
  "exForm =
     \<lparr>f_subject = ''Quarterly service'', f_equipment = ''100'',
      f_requestType = ''Preventive'', f_priority = ''Medium'', f_scheduledDate = [],
      f_description = ''Check seals'', f_equipmentCategory = ''Hydraulics'',
      f_maintenanceTeam = ''10'', f_assignedTechnician = []\<rparr>"

section \<open>Properties\<close>

subsection \<open>Lookup and update of a collection\<close>

lemmas enum_defs = stageValues_def requestTypeValues_def priorityValues_def

lemmas ex_defs = exAdmin_def exTechnician_def exUser_def exOtherUser_def exPump_def
  exTicket_def exStore_def exStoreAt_def exScrapped_def exTickets_def exBoard_def
  exPreventive_def exForm_def

lemma findById_key: "findById key i xs = Some x \<Longrightarrow> key x = i"
  unfolding findById_def by (induction xs) (auto split: if_splits)

lemma findById_updateById:
  "(\<And>x. key (f x) = key x) \<Longrightarrow>
   findById key i (updateById key i f xs) = map_option f (findById key i xs)"
  unfolding findById_def by (induction xs) auto

lemma findById_replace:
  "findById key i xs = Some x \<Longrightarrow> key y = i \<Longrightarrow>
   findById key i (updateById key i (\<lambda>_. y) xs) = Some y"
  unfolding findById_def by (induction xs) (auto split: if_splits)

lemma updateById_same:
  "findById key i xs = Some x \<Longrightarrow> updateById key i (\<lambda>_. x) xs = xs"
  unfolding findById_def by (induction xs) (auto split: if_splits)



lemma findById_deactivate:
  "findById e_id i (deactivate i es) = Some e \<Longrightarrow> \<not> isActive e"
  unfolding deactivate_def by (auto simp: findById_updateById)

lemma findById_deactivate_None:
  "findById e_id i (deactivate i es) = None \<longleftrightarrow> findById e_id i es = None"
  unfolding deactivate_def by (simp add: findById_updateById)

lemmas model_defs = updateRequestStage_def updateRequest_def createRequest_def
  getEquipmentAutoFill_def getAllRequests_def getRequestById_def assignTechnician_def
  assignTechnicianRoute_def roleAuth_def updateResolution_def newRequest_def assign_def
  canUpdate_def validRequest_def findById_def deactivate_def freshId_def emptyBody_def
  noQuery_def roleFilter_def queryFilter_def matchString_def trim_def isWhitespace_def
  handleDragEnd_def kanbanUpdateRequestStage_def showToast_def setStage_def
  isValidTransition_def validTransitions_def validateForm_def handleSubmit_def
  toSubmitData_def orUndefined_def enum_defs Let_def

subsection \<open>Frames of the handlers\<close>





lemma updateRequest_equipments:
  "equipments (snd (updateRequest flt u i b d)) = equipments d"
  by (simp add: updateRequest_def Let_def split: option.splits)

subsection \<open>The claims\<close>

text \<open>
  C1. When \<open>updateRequestStage\<close> to Scrap succeeds on request \<open>r\<close>, the request is
  stored with stage Scrap and the equipment that \<open>r\<close> references, looked up afterwards,
  is inactive (the lookup finds an equipment afterwards exactly when it did before).
  The equipment is written before the request is saved: when the equipment write
  rejects, the handler fails and the store is unchanged, so the stage is not changed;
  and when the equipment write goes through and the save rejects, the store left behind
  already has the equipment deactivated.
\<close>

theorem scrap_deactivates_equipment:
  "(updateRequestStage flt u i (Some ''Scrap'') d = (Inr r', d') \<and>
    findById r_id i (requests d) = Some r \<longrightarrow>
      r' = r\<lparr>stage := ''Scrap''\<rparr> \<and>
      findById r_id i (requests d') = Some r' \<and>
      (\<forall>e. findById e_id (equipment r) (equipments d') = Some e \<longrightarrow> \<not> isActive e) \<and>
      (findById e_id (equipment r) (equipments d') = None \<longleftrightarrow>
       findById e_id (equipment r) (equipments d) = None)) \<and>
   (EquipmentFindByIdAndUpdate \<in> flt \<longrightarrow>
      isl (fst (updateRequestStage flt u i (Some ''Scrap'') d)) \<and>
      snd (updateRequestStage flt u i (Some ''Scrap'') d) = d) \<and>
   (RequestFindById \<notin> flt \<and> EquipmentFindByIdAndUpdate \<notin> flt \<and> RequestSave \<in> flt \<and>
    findById r_id i (requests d) = Some r \<and> canUpdate u r \<longrightarrow>
      updateRequestStage flt u i (Some ''Scrap'') d =
        (Inl (Failure 500 ''Error updating request stage.''),
         d\<lparr>equipments := deactivate (equipment r) (equipments d)\<rparr>))"
proof (intro conjI impI)
  assume a: "updateRequestStage flt u i (Some ''Scrap'') d = (Inr r', d') \<and>
    findById r_id i (requests d) = Some r"
  then have r: "findById r_id i (requests d) = Some r" by simp
  from a have r': "r' = r\<lparr>stage := ''Scrap''\<rparr>"
    and d': "d' = d\<lparr>equipments := deactivate (equipment r) (equipments d),
                     requests := updateById r_id i (\<lambda>_. r') (requests d)\<rparr>"
    by (auto simp: updateRequestStage_def Let_def split: if_splits)
  have id: "r_id r' = i" using r r' by (simp add: findById_key)
  show "r' = r\<lparr>stage := ''Scrap''\<rparr>" by (rule r')
  show "findById r_id i (requests d') = Some r'"
    using r id d' by (simp add: findById_replace)
  show "\<forall>e. findById e_id (equipment r) (equipments d') = Some e \<longrightarrow> \<not> isActive e"
    using d' by (auto dest: findById_deactivate)
  show "findById e_id (equipment r) (equipments d') = None \<longleftrightarrow>
        findById e_id (equipment r) (equipments d) = None"
    using d' by (simp add: findById_deactivate_None)
next
  assume "EquipmentFindByIdAndUpdate \<in> flt"
  then show "isl (fst (updateRequestStage flt u i (Some ''Scrap'') d))"
    by (simp add: updateRequestStage_def split: option.splits)
next
  assume "EquipmentFindByIdAndUpdate \<in> flt"
  then show "snd (updateRequestStage flt u i (Some ''Scrap'') d) = d"
    by (simp add: updateRequestStage_def split: option.splits)
next
  assume "RequestFindById \<notin> flt \<and> EquipmentFindByIdAndUpdate \<notin> flt \<and> RequestSave \<in> flt \<and>
    findById r_id i (requests d) = Some r \<and> canUpdate u r"
  then show "updateRequestStage flt u i (Some ''Scrap'') d =
        (Inl (Failure 500 ''Error updating request stage.''),
         d\<lparr>equipments := deactivate (equipment r) (equipments d)\<rparr>)"
    by (simp add: updateRequestStage_def Let_def)
qed

theorem scrap_deactivates_equipment_witness:
  "updateRequestStage {} exTechnician 1000 (Some ''Scrap'') exStore =
     (Inr (exTicket\<lparr>stage := ''Scrap''\<rparr>),
      \<lparr>users = users exStore, equipments = [exPump\<lparr>isActive := False\<rparr>],
       requests = [exTicket\<lparr>stage := ''Scrap''\<rparr>]\<rparr>) \<and>
   findById e_id 100 (equipments exStore) = Some exPump \<and> isActive exPump \<and>
   updateRequestStage {EquipmentFindByIdAndUpdate} exTechnician 1000 (Some ''Scrap'') exStore =
     (Inl (Failure 500 ''Error updating request stage.''), exStore) \<and>
   updateRequestStage {RequestSave} exTechnician 1000 (Some ''Scrap'') exStore =
     (Inl (Failure 500 ''Error updating request stage.''),
      exStore\<lparr>equipments := [exPump\<lparr>isActive := False\<rparr>]\<rparr>)"
  using scrap_deactivates_equipment
    [of "{}" exTechnician 1000 exStore "exTicket\<lparr>stage := ''Scrap''\<rparr>"
        "\<lparr>users = users exStore, equipments = [exPump\<lparr>isActive := False\<rparr>],
          requests = [exTicket\<lparr>stage := ''Scrap''\<rparr>]\<rparr>" exTicket]
  by (simp add: model_defs ex_defs)

text \<open>
  C2, as stated, fails on the server: an Admin moves the sample request from Repaired
  back to New, a transition the validator rejects, and \<open>updateRequestStage\<close> commits it.
\<close>

theorem invalid_transition_counterexample:
  "\<not> isValidTransition ''Repaired'' ''New'' \<and>
   updateRequestStage {} exAdmin 1000 (Some ''New'') (exStoreAt ''Repaired'') =
     (Inr (exTicket\<lparr>stage := ''New''\<rparr>), exStoreAt ''New'')"
  by (simp add: model_defs ex_defs)

text \<open>
  C2, amended. The transition check is the Kanban board's: when a card at stage \<open>s\<close>
  of the schema is dropped on a target \<open>t\<close> other than \<open>s\<close> that the validator
  rejects, \<open>handleDragEnd\<close> shows the error "Cannot move from s to t" and calls
  nothing, so the store is unchanged. The server's \<open>updateRequestStage\<close> does not
  consult the validator: for a permitted actor and a valid stored request it commits any
  stage of the schema's enum.
\<close>

theorem invalid_transition_rejected_on_board:
  "(find (\<lambda>r. r_id r = a) (k_requests k) = Some r \<and> stage r \<in> set stageValues \<and>
    stage r \<noteq> t \<and> \<not> isValidTransition (stage r) t \<longrightarrow>
      handleDragEnd flt u a (Some t) (k, d) =
        (showToast (''Cannot move from '' @ stage r @ '' to '' @ t) ''error'' k, d)) \<and>
   (findById r_id i (requests d) = Some r \<and> canUpdate u r \<and> validRequest r \<and>
    t \<in> set stageValues \<longrightarrow>
      fst (updateRequestStage {} u i (Some t) d) = Inr (r\<lparr>stage := t\<rparr>) \<and>
      requests (snd (updateRequestStage {} u i (Some t) d)) =
        updateById r_id i (\<lambda>_. r\<lparr>stage := t\<rparr>) (requests d))"
proof (intro conjI impI)
  assume "find (\<lambda>r. r_id r = a) (k_requests k) = Some r \<and> stage r \<in> set stageValues \<and>
    stage r \<noteq> t \<and> \<not> isValidTransition (stage r) t"
  then show "handleDragEnd flt u a (Some t) (k, d) =
        (showToast (''Cannot move from '' @ stage r @ '' to '' @ t) ''error'' k, d)"
    by (simp add: handleDragEnd_def Let_def)
next
  assume a: "findById r_id i (requests d) = Some r \<and> canUpdate u r \<and> validRequest r \<and>
    t \<in> set stageValues"
  then have ne: "t \<noteq> []" by (auto simp: stageValues_def)
  from a have ok: "validRequest (r\<lparr>stage := t\<rparr>)" by (simp add: validRequest_def)
  show "fst (updateRequestStage {} u i (Some t) d) = Inr (r\<lparr>stage := t\<rparr>)"
    using a ne ok by (simp add: updateRequestStage_def Let_def)
  show "requests (snd (updateRequestStage {} u i (Some t) d)) =
        updateById r_id i (\<lambda>_. r\<lparr>stage := t\<rparr>) (requests d)"
    using a ne ok by (simp add: updateRequestStage_def Let_def)
qed

theorem invalid_transition_rejected_on_board_witness:
  "handleDragEnd {} exAdmin 1000 (Some ''New'') (exBoard ''Repaired'', exStoreAt ''Repaired'') =
     (showToast ''Cannot move from Repaired to New'' ''error'' (exBoard ''Repaired''),
      exStoreAt ''Repaired'') \<and>
   \<not> isValidTransition ''In Progress'' ''New'' \<and>
   fst (updateRequestStage {} exAdmin 1000 (Some ''New'') (exStoreAt ''In Progress'')) =
     Inr (exTicket\<lparr>stage := ''New''\<rparr>) \<and>
   requests (snd (updateRequestStage {} exAdmin 1000 (Some ''New'')
     (exStoreAt ''In Progress''))) = [exTicket\<lparr>stage := ''New''\<rparr>]"
  using invalid_transition_rejected_on_board
    [of 1000 "exBoard ''Repaired''" "exTicket\<lparr>stage := ''Repaired''\<rparr>" "''New''"
        "{}" exAdmin "exStoreAt ''Repaired''"]
    invalid_transition_rejected_on_board
    [of 1000 "exBoard ''In Progress''" "exTicket\<lparr>stage := ''In Progress''\<rparr>" "''New''"
        "{}" exAdmin "exStoreAt ''In Progress''" 1000]
  by (simp add: model_defs ex_defs)

text \<open>
  C3. The validator permits exactly New to In Progress, In Progress to Repaired, and
  any of New, In Progress, Repaired to Scrap. Nothing leaves Scrap (for any target at
  all), Repaired leaves only to Scrap, and among the four stages every other pair is
  rejected.
\<close>

theorem isValidTransition_graph:
  "(\<forall>t. \<not> isValidTransition ''Scrap'' t) \<and>
   (\<forall>t. t \<noteq> ''Scrap'' \<longrightarrow> \<not> isValidTransition ''Repaired'' t) \<and>
   (\<forall>s \<in> set stageValues. \<forall>t \<in> set stageValues.
      isValidTransition s t \<longleftrightarrow>
        (s, t) \<in> {(''New'', ''In Progress''), (''In Progress'', ''Repaired''),
                  (''New'', ''Scrap''), (''In Progress'', ''Scrap''),
                  (''Repaired'', ''Scrap'')})"
  by (simp add: isValidTransition_def validTransitions_def stageValues_def)

theorem isValidTransition_graph_witness:
  "\<not> isValidTransition ''Scrap'' ''New'' \<and>
   \<not> isValidTransition ''Repaired'' ''New'' \<and>
   \<not> isValidTransition ''In Progress'' ''New'' \<and>
   \<not> isValidTransition ''New'' ''Repaired'' \<and>
   isValidTransition ''Repaired'' ''Scrap'' \<and>
   isValidTransition ''New'' ''In Progress''"
  using isValidTransition_graph
  by (simp add: stageValues_def)

text \<open>
  C4. Against an equipment that exists and is inactive, \<open>createRequest\<close> fails with
  400 "Cannot create request for inactive/scrapped equipment." and leaves the store as
  it was, and \<open>getEquipmentAutoFill\<close> fails with 400 and its scrapped/inactive message;
  \<open>getEquipmentAutoFill\<close> fails with 404 when there is no equipment with the id.
  (The equipment lookup itself is taken not to reject.)
\<close>

theorem inactive_equipment_refused:
  "(EquipmentFindById \<notin> flt \<and> findById e_id i (equipments d) = Some e \<and> \<not> isActive e \<longrightarrow>
      (b_equipment b = Some i \<longrightarrow>
         createRequest flt u b d =
           (Inl (Failure 400 ''Cannot create request for inactive/scrapped equipment.''), d)) \<and>
      getEquipmentAutoFill flt i d =
        Inl (Failure 400
          ''This equipment is marked as scrapped/inactive and cannot have new requests.'')) \<and>
   (EquipmentFindById \<notin> flt \<and> findById e_id i (equipments d) = None \<longrightarrow>
      getEquipmentAutoFill flt i d = Inl (Failure 404 ''Equipment not found.''))"
  by (simp add: createRequest_def getEquipmentAutoFill_def)

theorem inactive_equipment_refused_witness:
  "findById e_id 100 (equipments exScrapped) = Some (exPump\<lparr>isActive := False\<rparr>) \<and>
   createRequest {} exUser
     (emptyBody\<lparr>b_subject := Some ''Noise'', b_equipment := Some 100,
                 b_requestType := Some ''Corrective''\<rparr>) exScrapped =
     (Inl (Failure 400 ''Cannot create request for inactive/scrapped equipment.''), exScrapped) \<and>
   getEquipmentAutoFill {} 100 exScrapped =
     Inl (Failure 400
       ''This equipment is marked as scrapped/inactive and cannot have new requests.'') \<and>
   findById e_id 7 (equipments exScrapped) = None \<and>
   getEquipmentAutoFill {} 7 exScrapped = Inl (Failure 404 ''Equipment not found.'')"
  using inactive_equipment_refused
    [of "{}" 100 exScrapped "exPump\<lparr>isActive := False\<rparr>"
        "emptyBody\<lparr>b_subject := Some ''Noise'', b_equipment := Some 100,
                    b_requestType := Some ''Corrective''\<rparr>" exUser]
    inactive_equipment_refused [of "{}" 7 exScrapped]
  by (simp add: findById_def emptyBody_def exScrapped_def ex_defs)

text \<open>
  C5, as stated, fails: a User-role actor recorded as the request's assigned technician
  passes the permission check of \<open>updateRequestStage\<close> and changes the stage.
\<close>

theorem user_role_counterexample:
  "role exUser = User \<and>
   updateRequestStage {} exUser 1000 (Some ''In Progress'')
     (exStore\<lparr>requests := [exTicket\<lparr>assignedTechnician := Some 3\<rparr>]\<rparr>) =
     (Inr (exTicket\<lparr>assignedTechnician := Some 3, stage := ''In Progress''\<rparr>),
      exStore\<lparr>requests :=
        [exTicket\<lparr>assignedTechnician := Some 3, stage := ''In Progress''\<rparr>]\<rparr>)"
  by (simp add: model_defs ex_defs)

text \<open>
  C5, amended. A User-role actor who is not the request's assigned technician gets 403
  from \<open>updateRequestStage\<close> for every stage, whether the transition is valid or not,
  and the store is unchanged. The check admits whoever is recorded as the assigned
  technician, whatever the role: for such a User-role actor and a valid stored request
  the change to any stage of the enum succeeds.
\<close>

theorem user_role_forbidden_unless_assigned:
  "(role u = User \<and> s \<noteq> [] \<and> RequestFindById \<notin> flt \<and>
    findById r_id i (requests d) = Some r \<and> assignedTechnician r \<noteq> Some (u_id u) \<longrightarrow>
      updateRequestStage flt u i (Some s) d =
        (Inl (Failure 403 ''You do not have permission to update this request.''), d)) \<and>
   (role u = User \<and> s \<in> set stageValues \<and> validRequest r \<and>
    findById r_id i (requests d) = Some r \<and> assignedTechnician r = Some (u_id u) \<longrightarrow>
      fst (updateRequestStage {} u i (Some s) d) = Inr (r\<lparr>stage := s\<rparr>))"
proof (intro conjI impI)
  assume "role u = User \<and> s \<noteq> [] \<and> RequestFindById \<notin> flt \<and>
    findById r_id i (requests d) = Some r \<and> assignedTechnician r \<noteq> Some (u_id u)"
  then show "updateRequestStage flt u i (Some s) d =
        (Inl (Failure 403 ''You do not have permission to update this request.''), d)"
    by (simp add: updateRequestStage_def canUpdate_def)
next
  assume a: "role u = User \<and> s \<in> set stageValues \<and> validRequest r \<and>
    findById r_id i (requests d) = Some r \<and> assignedTechnician r = Some (u_id u)"
  then have ne: "s \<noteq> []" by (auto simp: stageValues_def)
  from a have ok: "validRequest (r\<lparr>stage := s\<rparr>)" by (simp add: validRequest_def)
  from a have gate: "canUpdate u r" by (simp add: canUpdate_def)
  show "fst (updateRequestStage {} u i (Some s) d) = Inr (r\<lparr>stage := s\<rparr>)"
    using a ne ok gate by (simp add: updateRequestStage_def Let_def)
qed

theorem user_role_forbidden_unless_assigned_witness:
  "updateRequestStage {} exUser 1000 (Some ''In Progress'') exStore =
     (Inl (Failure 403 ''You do not have permission to update this request.''), exStore) \<and>
   isValidTransition ''New'' ''In Progress'' \<and>
   updateRequestStage {} exUser 1000 (Some ''Repaired'') exStore =
     (Inl (Failure 403 ''You do not have permission to update this request.''), exStore) \<and>
   \<not> isValidTransition ''New'' ''Repaired'' \<and>
   fst (updateRequestStage {} exUser 1000 (Some ''Repaired'')
     (exStore\<lparr>requests := [exTicket\<lparr>assignedTechnician := Some 3\<rparr>]\<rparr>)) =
     Inr (exTicket\<lparr>assignedTechnician := Some 3, stage := ''Repaired''\<rparr>)"
  using user_role_forbidden_unless_assigned
    [of exUser "''In Progress''" "{}" 1000 exStore exTicket]
    user_role_forbidden_unless_assigned
    [of exUser "''Repaired''" "{}" 1000 exStore exTicket]
    user_role_forbidden_unless_assigned
    [of exUser "''Repaired''" "{}" 1000
        "exStore\<lparr>requests := [exTicket\<lparr>assignedTechnician := Some 3\<rparr>]\<rparr>"
        "exTicket\<lparr>assignedTechnician := Some 3\<rparr>"]
  by (simp add: model_defs ex_defs)







text \<open>
  C8, as stated, fails on the server: \<open>createRequest\<close> creates a Preventive request
  whose body has no scheduledDate.
\<close>

theorem preventive_without_date_counterexample:
  "b_requestType exPreventive = Some ''Preventive'' \<and> b_scheduledDate exPreventive = None \<and>
   createRequest {} exUser exPreventive exStore =
     (Inr (exTicket\<lparr>r_id := 1001, subject := ''Quarterly service'',
                     requestType := ''Preventive'', description := []\<rparr>),
      exStore\<lparr>requests :=
        [exTicket,
         exTicket\<lparr>r_id := 1001, subject := ''Quarterly service'',
                   requestType := ''Preventive'', description := []\<rparr>]\<rparr>)"
  by (simp add: model_defs ex_defs exPreventive_def)

text \<open>
  C8, amended. The rule is the request form's: with requestType Preventive and an empty
  scheduledDate, \<open>validateForm\<close> reports "Scheduled date is required for preventive
  maintenance" on the field scheduledDate and \<open>handleSubmit\<close> rejects the form and
  sends nothing. The server's \<open>createRequest\<close> makes no such check: for an active
  equipment and a body that passes the schema's validators it creates the request with
  scheduledDate null.
\<close>

theorem preventive_date_checked_by_form:
  "(f_requestType f = ''Preventive'' \<and> f_scheduledDate f = [] \<longrightarrow>
      (''scheduledDate'', ''Scheduled date is required for preventive maintenance'')
        \<in> set (validateForm f) \<and>
      handleSubmit routeId f =
        FormRejected (validateForm f) ''Please fix the errors in the form'') \<and>
   (b_requestType b = Some ''Preventive'' \<and> b_scheduledDate b \<in> {None, Some None} \<and>
    b_equipment b = Some j \<and> findById e_id j (equipments d) = Some e \<and> isActive e \<and>
    validRequest (newRequest (freshId (requests d)) u b e) \<longrightarrow>
      scheduledDate (newRequest (freshId (requests d)) u b e) = None \<and>
      createRequest {} u b d =
        (Inr (newRequest (freshId (requests d)) u b e),
         d\<lparr>requests := requests d @ [newRequest (freshId (requests d)) u b e]\<rparr>))"
proof (intro conjI impI)
  assume a: "f_requestType f = ''Preventive'' \<and> f_scheduledDate f = []"
  then show m: "(''scheduledDate'', ''Scheduled date is required for preventive maintenance'')
        \<in> set (validateForm f)"
    by (simp add: validateForm_def)
  then have "validateForm f \<noteq> []" by auto
  then show "handleSubmit routeId f =
        FormRejected (validateForm f) ''Please fix the errors in the form''"
    by (simp add: handleSubmit_def)
next
  assume "b_requestType b = Some ''Preventive'' \<and> b_scheduledDate b \<in> {None, Some None} \<and>
    b_equipment b = Some j \<and> findById e_id j (equipments d) = Some e \<and> isActive e \<and>
    validRequest (newRequest (freshId (requests d)) u b e)"
  then show "scheduledDate (newRequest (freshId (requests d)) u b e) = None"
    and "createRequest {} u b d =
        (Inr (newRequest (freshId (requests d)) u b e),
         d\<lparr>requests := requests d @ [newRequest (freshId (requests d)) u b e]\<rparr>)"
    by (auto simp: createRequest_def Let_def newRequest_def)
qed

theorem preventive_date_checked_by_form_witness:
  "handleSubmit None exForm =
     FormRejected
       [(''scheduledDate'', ''Scheduled date is required for preventive maintenance'')]
       ''Please fix the errors in the form'' \<and>
   scheduledDate (newRequest 1001 exUser exPreventive exPump) = None \<and>
   requestType (newRequest 1001 exUser exPreventive exPump) = ''Preventive'' \<and>
   fst (createRequest {} exUser exPreventive exStore) =
     Inr (newRequest 1001 exUser exPreventive exPump)"
  using preventive_date_checked_by_form [of exForm None]
    preventive_date_checked_by_form
      [of exForm None exPreventive 100 exStore exPump exUser]
  by (simp add: model_defs ex_defs exPreventive_def exForm_def)

text \<open>
  C9, as stated, fails on the server: for a request already at Scrap whose equipment is
  active, \<open>updateRequestStage\<close> to Scrap writes the equipment, which becomes inactive.
\<close>

theorem same_stage_scrap_counterexample:
  "stage (exTicket\<lparr>stage := ''Scrap''\<rparr>) = ''Scrap'' \<and>
   equipments (exStoreAt ''Scrap'') = [exPump] \<and> isActive exPump \<and>
   updateRequestStage {} exAdmin 1000 (Some ''Scrap'') (exStoreAt ''Scrap'') =
     (Inr (exTicket\<lparr>stage := ''Scrap''\<rparr>),
      (exStoreAt ''Scrap'')\<lparr>equipments := [exPump\<lparr>isActive := False\<rparr>]\<rparr>)"
  by (simp add: model_defs ex_defs)

text \<open>
  C9, amended. On the Kanban board a drop on the card's own stage does nothing: no call,
  no message, client state and store unchanged. On the server, for a permitted actor and
  a valid stored request, \<open>updateRequestStage\<close> with the current stage succeeds and
  leaves the request as it is; the store is unchanged when the stage is not Scrap, and
  when it is Scrap the equipment deactivation is written again.
\<close>

theorem same_stage_is_noop_on_board:
  "(find (\<lambda>r. r_id r = a) (k_requests k) = Some r \<longrightarrow>
      handleDragEnd flt u a (Some (stage r)) (k, d) = (k, d)) \<and>
   (findById r_id i (requests d) = Some r \<and> canUpdate u r \<and> validRequest r \<longrightarrow>
      updateRequestStage {} u i (Some (stage r)) d =
        (Inr r,
         if stage r = ''Scrap''
         then d\<lparr>equipments := deactivate (equipment r) (equipments d)\<rparr>
         else d))"
proof (intro conjI impI)
  assume "find (\<lambda>r. r_id r = a) (k_requests k) = Some r"
  then show "handleDragEnd flt u a (Some (stage r)) (k, d) = (k, d)"
    by (simp add: handleDragEnd_def Let_def)
next
  assume a: "findById r_id i (requests d) = Some r \<and> canUpdate u r \<and> validRequest r"
  then have ne: "stage r \<noteq> []" by (auto simp: validRequest_def stageValues_def)
  have same: "r\<lparr>stage := stage r\<rparr> = r" by simp
  from a have upd: "updateById r_id i (\<lambda>_. r) (requests d) = requests d"
    by (simp add: updateById_same)
  show "updateRequestStage {} u i (Some (stage r)) d =
        (Inr r,
         if stage r = ''Scrap''
         then d\<lparr>equipments := deactivate (equipment r) (equipments d)\<rparr>
         else d)"
    using a ne upd by (simp add: updateRequestStage_def Let_def)
qed

theorem same_stage_is_noop_on_board_witness:
  "handleDragEnd {} exAdmin 1000 (Some ''Scrap'') (exBoard ''Scrap'', exStoreAt ''Scrap'') =
     (exBoard ''Scrap'', exStoreAt ''Scrap'') \<and>
   updateRequestStage {} exAdmin 1000 (Some ''New'') exStore = (Inr exTicket, exStore) \<and>
   updateRequestStage {} exAdmin 1000 (Some ''Scrap'') (exStoreAt ''Scrap'') =
     (Inr (exTicket\<lparr>stage := ''Scrap''\<rparr>),
      (exStoreAt ''Scrap'')\<lparr>equipments := [exPump\<lparr>isActive := False\<rparr>]\<rparr>)"
  using same_stage_is_noop_on_board
      [of 1000 "exBoard ''Scrap''" "exTicket\<lparr>stage := ''Scrap''\<rparr>" "{}" exAdmin
          "exStoreAt ''Scrap''" 1000]
    same_stage_is_noop_on_board [of 1000 "exBoard ''New''" exTicket "{}" exAdmin exStore 1000]
  by (simp add: model_defs ex_defs exBoard_def)

text \<open>
  C10. \<open>updateRequest\<close> never writes the equipment collection. When the document
  with the body's fields copied onto it passes the schema's validators, a permitted
  actor's update succeeds with exactly that document; each field the body supplies is
  the document's (the trimmed one for the strings the schema trims). In particular any
  stage of the enum is committed, whatever the current stage, and Scrap leaves the
  equipment as it was.
\<close>

theorem updateRequest_copies_without_cascade:
  "equipments (snd (updateRequest flt u i b d)) = equipments d \<and>
   (RequestFindById \<notin> flt \<and> RequestSave \<notin> flt \<and> Populate \<notin> flt \<and>
    findById r_id i (requests d) = Some r \<and> canUpdate u r \<and> validRequest (assign r b) \<longrightarrow>
      updateRequest flt u i b d =
        (Inr (assign r b),
         d\<lparr>requests := updateById r_id i (\<lambda>_. assign r b) (requests d)\<rparr>)) \<and>
   (\<forall>x. b_subject b = Some x \<longrightarrow> subject (assign r b) = trim x) \<and>
   (\<forall>x. b_equipment b = Some x \<longrightarrow> equipment (assign r b) = x) \<and>
   (\<forall>x. b_equipmentCategory b = Some x \<longrightarrow> equipmentCategory (assign r b) = trim x) \<and>
   (\<forall>x. b_maintenanceTeam b = Some x \<longrightarrow> maintenanceTeam (assign r b) = x) \<and>
   (\<forall>x. b_requestType b = Some x \<longrightarrow> requestType (assign r b) = x) \<and>
   (\<forall>x. b_stage b = Some x \<longrightarrow> stage (assign r b) = x) \<and>
   (\<forall>x. b_priority b = Some x \<longrightarrow> priority (assign r b) = x) \<and>
   (\<forall>x. b_scheduledDate b = Some x \<longrightarrow> scheduledDate (assign r b) = x) \<and>
   (\<forall>x. b_assignedTechnician b = Some x \<longrightarrow> assignedTechnician (assign r b) = x) \<and>
   (\<forall>x. b_durationHours b = Some x \<longrightarrow> durationHours (assign r b) = x) \<and>
   (\<forall>x. b_description b = Some x \<longrightarrow> description (assign r b) = trim x) \<and>
   (\<forall>x. b_resolutionNotes b = Some x \<longrightarrow> resolutionNotes (assign r b) = trim x) \<and>
   (\<forall>x. b_createdBy b = Some x \<longrightarrow> createdBy (assign r b) = x) \<and>
   (findById r_id i (requests d) = Some r \<and> canUpdate u r \<and> validRequest r \<and>
    s \<in> set stageValues \<longrightarrow>
      updateRequest {} u i (emptyBody\<lparr>b_stage := Some s\<rparr>) d =
        (Inr (r\<lparr>stage := s\<rparr>),
         d\<lparr>requests := updateById r_id i (\<lambda>_. r\<lparr>stage := s\<rparr>) (requests d)\<rparr>))"
proof (intro conjI impI allI)
  show "equipments (snd (updateRequest flt u i b d)) = equipments d"
    by (rule updateRequest_equipments)
next
  assume "RequestFindById \<notin> flt \<and> RequestSave \<notin> flt \<and> Populate \<notin> flt \<and>
    findById r_id i (requests d) = Some r \<and> canUpdate u r \<and> validRequest (assign r b)"
  then show "updateRequest flt u i b d =
        (Inr (assign r b),
         d\<lparr>requests := updateById r_id i (\<lambda>_. assign r b) (requests d)\<rparr>)"
    by (simp add: updateRequest_def Let_def)
next
  assume a: "findById r_id i (requests d) = Some r \<and> canUpdate u r \<and> validRequest r \<and>
    s \<in> set stageValues"
  have eq: "assign r (emptyBody\<lparr>b_stage := Some s\<rparr>) = r\<lparr>stage := s\<rparr>"
    by (simp add: assign_def emptyBody_def)
  from a have "validRequest (r\<lparr>stage := s\<rparr>)" by (simp add: validRequest_def)
  with a eq show "updateRequest {} u i (emptyBody\<lparr>b_stage := Some s\<rparr>) d =
        (Inr (r\<lparr>stage := s\<rparr>),
         d\<lparr>requests := updateById r_id i (\<lambda>_. r\<lparr>stage := s\<rparr>) (requests d)\<rparr>)"
    by (simp add: updateRequest_def Let_def)
qed (simp_all add: assign_def)

theorem updateRequest_copies_without_cascade_witness:
  "updateRequest {} exAdmin 1000 (emptyBody\<lparr>b_stage := Some ''Scrap''\<rparr>) exStore =
     (Inr (exTicket\<lparr>stage := ''Scrap''\<rparr>), exStoreAt ''Scrap'') \<and>
   equipments (exStoreAt ''Scrap'') = [exPump] \<and> isActive exPump \<and>
   \<not> isValidTransition ''Repaired'' ''New'' \<and>
   updateRequest {} exAdmin 1000 (emptyBody\<lparr>b_stage := Some ''New''\<rparr>)
     (exStoreAt ''Repaired'') =
     (Inr (exTicket\<lparr>stage := ''New''\<rparr>), exStoreAt ''New'')"
  using updateRequest_copies_without_cascade
      [of "{}" exAdmin 1000 "emptyBody\<lparr>b_stage := Some ''Scrap''\<rparr>" exStore exTicket
          "''Scrap''"]
    updateRequest_copies_without_cascade
      [of "{}" exAdmin 1000 "emptyBody\<lparr>b_stage := Some ''New''\<rparr>" "exStoreAt ''Repaired''"
          "exTicket\<lparr>stage := ''Repaired''\<rparr>" "''New''"]
  by (simp add: model_defs ex_defs)

end
